theory Spec2Isabelle
  imports Complex_Main "HOL-Library.Sublist"
begin

section \<open>Values, exceptions and strings\<close>

text \<open>
  The Python sources are \<^verbatim>\<open>tools.py\<close> (the knowledge-base lookup with its cache and
  its fallbacks), \<^verbatim>\<open>node.py\<close> (the supervisor, human-feedback, integration and
  specialist nodes) and \<^verbatim>\<open>graph.py\<close> (the node table). An exception is a value:
  a call that may raise returns an \<open>outcome\<close>, and every \<^verbatim>\<open>try/except\<close> of the
  source is a case distinction on it. Only exceptions derived from
  \<^verbatim>\<open>Exception\<close> are modelled, as those are what the handlers catch.
\<close>

datatype exn = IndexError | Failure string

datatype 'a outcome = Raises exn | Returns 'a

fun str_of :: "exn \<Rightarrow> string" where
  "str_of IndexError = ''list index out of range''"
| "str_of (Failure msg) = msg"

text \<open>
  Strings are byte lists. \<^verbatim>\<open>str.lower\<close> and \<^verbatim>\<open>str.capitalize\<close> are modelled on
  ASCII letters (other bytes are kept), \<^verbatim>\<open>str.split()\<close> on ASCII white space, and
  \<^verbatim>\<open>kw in s\<close> is the contiguous-substring test.
\<close>

definition lower_char :: "char \<Rightarrow> char" where
  "lower_char c =
     (case map_of (zip ''ABCDEFGHIJKLMNOPQRSTUVWXYZ'' ''abcdefghijklmnopqrstuvwxyz'') c of
        None \<Rightarrow> c | Some d \<Rightarrow> d)"

definition upper_char :: "char \<Rightarrow> char" where
  "upper_char c =
     (case map_of (zip ''abcdefghijklmnopqrstuvwxyz'' ''ABCDEFGHIJKLMNOPQRSTUVWXYZ'') c of
        None \<Rightarrow> c | Some d \<Rightarrow> d)"

definition lower :: "string \<Rightarrow> string" where
  "lower s = map lower_char s"

fun capitalize :: "string \<Rightarrow> string" where
  "capitalize [] = []"
| "capitalize (c # cs) = upper_char c # lower cs"

definition is_space :: "char \<Rightarrow> bool" where
  "is_space c =
     (let n = (of_char c :: nat) in n = 32 \<or> (9 \<le> n \<and> n \<le> 13) \<or> (28 \<le> n \<and> n \<le> 31))"

fun split_acc :: "string \<Rightarrow> string \<Rightarrow> string list" where
  "split_acc cur [] = (if cur = [] then [] else [cur])"
| "split_acc cur (c # cs) =
     (if is_space c then (if cur = [] then split_acc [] cs else cur # split_acc [] cs)
      else split_acc (cur @ [c]) cs)"

definition split :: "string \<Rightarrow> string list" where
  "split s = split_acc [] s"

fun contains :: "string \<Rightarrow> string \<Rightarrow> bool" where
  "contains kw [] = (kw = [])"
| "contains kw (c # cs) = (prefix kw (c # cs) \<or> contains kw cs)"

fun join :: "string \<Rightarrow> string list \<Rightarrow> string" where
  "join sep [] = []"
| "join sep [x] = x"
| "join sep (x # y # ys) = x @ sep @ join sep (y # ys)"

definition dict_get :: "(string \<times> 'v) list \<Rightarrow> string \<Rightarrow> 'v \<Rightarrow> 'v" where
  "dict_get d k dflt = (case map_of d k of None \<Rightarrow> dflt | Some v \<Rightarrow> v)"

definition get_or :: "'v option \<Rightarrow> 'v \<Rightarrow> 'v" where
  "get_or field dflt = (case field of None \<Rightarrow> dflt | Some v \<Rightarrow> v)"

section \<open>The knowledge-base lookup of tools.py\<close>

subsection \<open>Records, backend rows and the external services\<close>

text \<open>
  A result is the dictionary built at lines 337-344 (and 364-371, 401-408, 423-430), or
  the one-key dictionary \<^verbatim>\<open>{"error": ...}\<close> of lines 317 and 441. Floats are
  rationals: the source only stores and returns them.
\<close>

datatype kb_record =
    KbRecord string string string string "(string \<times> string) list" rat
  | ErrorRecord string

text \<open>
  A vector-store hit is a document with its score; a row of an RPC, SQL or table
  response is a dictionary read with \<^verbatim>\<open>item.get(key, default)\<close>, so every key is
  optional. An element of a response on which the conversion loop itself raises (one that
  is not a dictionary) is \<open>Malformed\<close>.
\<close>

record document =
  page_content :: string
  doc_metadata :: "(string \<times> string) list"

record item =
  item_id :: "string option"
  item_content :: "string option"
  item_title :: "string option"
  item_summary :: "string option"
  item_metadata :: "(string \<times> string) list option"
  item_similarity :: "rat option"

datatype 'a raw = Malformed exn | Wellformed 'a

text \<open>
  The module-level globals of \<^verbatim>\<open>tools.py\<close> and the services behind them. A service
  is a function from the arguments of the call to its outcome. \<open>vector_store\<close> and
  \<open>db_connect\<close> are \<open>None\<close> when the global is \<^verbatim>\<open>None\<close>, respectively when
  \<^verbatim>\<open>psycopg2.connect\<close> raises. \<open>execute_agent\<close> is the function of the module
  \<^verbatim>\<open>agents\<close>, which is taken as given: persona, tool names, messages and context
  to the response text.
\<close>

datatype partner = Partner "(string \<times> string) list" | PartnerError string

record kb_context =
  knowledge_base_results :: "kb_record list option"
  ecosystem_partners :: "partner list option"

record env =
  supabase_available :: bool
  DB_USER :: "string option"
  redis_available :: bool
  redis_client :: bool
  redis_reachable :: bool
  vector_store :: "(string \<Rightarrow> nat \<Rightarrow> (document \<times> rat) raw list outcome) option"
  embed_query :: "string \<Rightarrow> rat list outcome"
  rpc_match_documents :: "rat list \<Rightarrow> nat \<Rightarrow> string \<Rightarrow> item raw list outcome"
  db_connect :: "(string \<Rightarrow> item raw list outcome) option"
  table_ilike :: "string \<Rightarrow> nat \<Rightarrow> item raw list outcome"
  partner_query :: "string \<Rightarrow> partner list outcome"
  execute_agent :: "string \<Rightarrow> string list \<Rightarrow> string list \<Rightarrow> kb_context \<Rightarrow> string"

text \<open>
  What a call changes: the Redis store (a key holds a value and the time at which it
  expires), the clock, and the list of calls made to the services, in order.
\<close>

datatype call =
    Cache_get string
  | Cache_set string
  | Vector_search string
  | Embed_query string
  | Rpc_match_documents
  | Direct_db_query string
  | Api_keyword string
  | Partner_lookup string
  | Agent string

record world =
  redis_store :: "string \<rightharpoonup> (kb_record list \<times> nat)"
  clock :: nat
  calls :: "call list"

definition note_call :: "call \<Rightarrow> world \<Rightarrow> world" where
  "note_call c w = w\<lparr>calls := calls w @ [c]\<rparr>"

text \<open>
  Redis as the source uses it: \<^verbatim>\<open>get\<close> returns the value of a key that has not
  expired, \<^verbatim>\<open>setex\<close> stores a value that expires after the given number of seconds;
  both raise when the server cannot be reached. The store keeps the decoded value:
  \<^verbatim>\<open>json.loads\<close> is taken to invert \<^verbatim>\<open>json.dumps\<close> on result lists.
\<close>

definition redis_get :: "env \<Rightarrow> string \<Rightarrow> world \<Rightarrow> kb_record list option outcome \<times> world" where
  "redis_get e key w =
     (let w1 = note_call (Cache_get key) w in
      if \<not> redis_reachable e then (Raises (Failure ''redis connection error''), w1)
      else (case redis_store w key of
              None \<Rightarrow> (Returns None, w1)
            | Some (v, expires) \<Rightarrow>
                (if clock w < expires then (Returns (Some v), w1) else (Returns None, w1))))"

definition redis_setex ::
  "env \<Rightarrow> string \<Rightarrow> nat \<Rightarrow> kb_record list \<Rightarrow> world \<Rightarrow> bool outcome \<times> world" where
  "redis_setex e key expire v w =
     (let w1 = note_call (Cache_set key) w in
      if \<not> redis_reachable e then (Raises (Failure ''redis connection error''), w1)
      else (Returns True, w1\<lparr>redis_store := (redis_store w1)(key \<mapsto> (v, clock w1 + expire))\<rparr>))"

subsection \<open>The cache helpers (lines 472-491)\<close>

definition get_from_cache :: "env \<Rightarrow> string \<Rightarrow> world \<Rightarrow> kb_record list option \<times> world" where
  "get_from_cache e key w =
     (if \<not> redis_available e \<or> \<not> redis_client e then (None, w)
      else (case redis_get e key w of
              (Raises ex, w1) \<Rightarrow> (None, w1)
            | (Returns data, w1) \<Rightarrow> (data, w1)))"

definition set_in_cache ::
  "env \<Rightarrow> string \<Rightarrow> kb_record list \<Rightarrow> nat \<Rightarrow> world \<Rightarrow> bool \<times> world" where
  "set_in_cache e key v expire w =
     (if \<not> redis_available e \<or> \<not> redis_client e then (False, w)
      else (case redis_setex e key expire v w of
              (Raises ex, w1) \<Rightarrow> (False, w1)
            | (Returns ok, w1) \<Rightarrow> (ok, w1)))"

definition default_expire :: nat where
  "default_expire = 3600"

subsection \<open>The direct database query (lines 32-65)\<close>

definition get_db_connection :: "env \<Rightarrow> (string \<Rightarrow> item raw list outcome) option" where
  "get_db_connection e = db_connect e"

definition direct_db_query :: "env \<Rightarrow> string \<Rightarrow> world \<Rightarrow> item raw list \<times> world" where
  "direct_db_query e q w =
     (let w1 = note_call (Direct_db_query q) w in
      case get_db_connection e of
        None \<Rightarrow> ([], w1)
      | Some cursor_execute \<Rightarrow>
          (case cursor_execute q of
             Raises ex \<Rightarrow> ([], w1)
           | Returns rows \<Rightarrow> (rows, w1)))"

subsection \<open>Building the result dictionaries\<close>

definition doc_record :: "document \<times> rat \<Rightarrow> kb_record" where
  "doc_record ds =
     (case ds of (doc, score) \<Rightarrow>
        KbRecord (dict_get (doc_metadata doc) ''id'' ''unknown'')
                 (page_content doc)
                 (dict_get (doc_metadata doc) ''title'' ''Untitled'')
                 (dict_get (doc_metadata doc) ''summary'' '''')
                 (doc_metadata doc)
                 score)"

definition item_record :: "(item \<Rightarrow> rat) \<Rightarrow> item \<Rightarrow> kb_record" where
  "item_record similarity it =
     KbRecord (get_or (item_id it) ''unknown'')
              (get_or (item_content it) '''')
              (get_or (item_title it) ''Untitled'')
              (get_or (item_summary it) '''')
              (get_or (item_metadata it) [])
              (similarity it)"

definition rpc_similarity :: "item \<Rightarrow> rat" where
  "rpc_similarity it = get_or (item_similarity it) 0"

definition direct_similarity :: "item \<Rightarrow> rat" where
  "direct_similarity it = 3 / 4"

definition keyword_similarity :: "item \<Rightarrow> rat" where
  "keyword_similarity it = 4 / 5"

text \<open>
  The \<^verbatim>\<open>for ...: results.append(...)\<close> loops: an element on which the loop raises
  ends it, and the records appended before stay in \<^verbatim>\<open>results\<close>.
\<close>

fun append_each :: "('a \<Rightarrow> kb_record) \<Rightarrow> 'a raw list \<Rightarrow> kb_record list \<Rightarrow> kb_record list \<times> exn option" where
  "append_each f [] results = (results, None)"
| "append_each f (Malformed ex # xs) results = (results, Some ex)"
| "append_each f (Wellformed x # xs) results = append_each f xs (results @ [f x])"

subsection \<open>The strategies of search\_knowledge\_base (lines 313-441)\<close>

text \<open>Lines 331-346: the vector store, when there is one; its exception is caught.\<close>

definition vector_search :: "env \<Rightarrow> string \<Rightarrow> world \<Rightarrow> kb_record list \<times> world" where
  "vector_search e query w =
     (case vector_store e of
        None \<Rightarrow> ([], w)
      | Some similarity_search_with_score \<Rightarrow>
          (let w1 = note_call (Vector_search query) w in
           case similarity_search_with_score query 5 of
             Raises ve \<Rightarrow> ([], w1)
           | Returns similarity_results \<Rightarrow>
               (fst (append_each doc_record similarity_results []), w1)))"

text \<open>
  Lines 351-371: the body of the \<^verbatim>\<open>try\<close> around the \<^verbatim>\<open>match_documents\<close> call,
  with the exception it ends with, if any.
\<close>

definition match_documents ::
  "env \<Rightarrow> string \<Rightarrow> world \<Rightarrow> kb_record list \<times> exn option \<times> world" where
  "match_documents e query w =
     (let w1 = note_call (Embed_query query) w in
      case embed_query e query of
        Raises me \<Rightarrow> ([], Some me, w1)
      | Returns embeddings_vector \<Rightarrow>
          (let w2 = note_call Rpc_match_documents w1 in
           case rpc_match_documents e embeddings_vector 5 '''' of
             Raises me \<Rightarrow> ([], Some me, w2)
           | Returns data \<Rightarrow>
               (case append_each (item_record rpc_similarity) data [] of
                  (results, raised) \<Rightarrow> (results, raised, w2))))"

text \<open>
  Lines 376-410: the direct database query, inside the handler of the
  \<^verbatim>\<open>match_documents\<close> exception. The SQL text is the source's up to white space.
\<close>

definition sql_conditions :: "string list \<Rightarrow> string list" where
  "sql_conditions keywords =
     map (\<lambda>keyword. ''content ILIKE '' @ [CHR 0x27] @ ''%'' @ keyword @ ''%'' @ [CHR 0x27])
       (filter (\<lambda>keyword. length keyword > 2) (take 3 keywords))"

definition sql_query :: "string list \<Rightarrow> string" where
  "sql_query conditions =
     ''SELECT id, title, content, summary, metadata FROM knowledge_chunks WHERE ''
       @ join '' OR '' conditions @ '' LIMIT 5''"

definition direct_query_fallback ::
  "env \<Rightarrow> string \<Rightarrow> kb_record list \<Rightarrow> world \<Rightarrow> kb_record list \<times> world" where
  "direct_query_fallback e query results w =
     (let keywords = split (lower query) in
      if keywords = [] then (results, w)
      else (let conditions = sql_conditions keywords in
            if conditions = [] then (results, w)
            else (case direct_db_query e (sql_query conditions) w of
                    (db_results, w1) \<Rightarrow>
                      (fst (append_each (item_record direct_similarity) db_results results), w1))))"

text \<open>Lines 413-432: keyword matching through the API, on the first keyword only.\<close>

definition keyword_fallback ::
  "env \<Rightarrow> string \<Rightarrow> kb_record list \<Rightarrow> world \<Rightarrow> kb_record list \<times> world" where
  "keyword_fallback e query results w =
     (case split (lower query) of
        [] \<Rightarrow> (results, w)
      | main_keyword # rest \<Rightarrow>
          (let w1 = note_call (Api_keyword main_keyword) w in
           case table_ilike e main_keyword 5 of
             Raises ke \<Rightarrow> (results, w1)
           | Returns data \<Rightarrow>
               (fst (append_each (item_record keyword_similarity) data results), w1)))"

text \<open>
  Lines 349-432: the \<^verbatim>\<open>match_documents\<close> call and, in the handler of its
  exception, the two fallbacks.
\<close>

definition rpc_with_fallbacks :: "env \<Rightarrow> string \<Rightarrow> world \<Rightarrow> kb_record list \<times> world" where
  "rpc_with_fallbacks e query w =
     (case match_documents e query w of
        (results, None, w1) \<Rightarrow> (results, w1)
      | (results, Some me, w1) \<Rightarrow>
          (case direct_query_fallback e query results w1 of
             (results2, w2) \<Rightarrow>
               (if results2 = [] then keyword_fallback e query results2 w2
                else (results2, w2))))"

text \<open>Lines 319-438: the body of the outer \<^verbatim>\<open>try\<close>.\<close>

definition cache_key :: "string \<Rightarrow> string" where
  "cache_key query = ''kb_search:'' @ query"

definition search_attempt :: "env \<Rightarrow> string \<Rightarrow> world \<Rightarrow> kb_record list outcome \<times> world" where
  "search_attempt e query w =
     (case (if redis_available e then get_from_cache e (cache_key query) w else (None, w)) of
        (cached_result, w1) \<Rightarrow>
          (if redis_available e \<and> cached_result \<noteq> None \<and> cached_result \<noteq> Some []
           then (Returns (get_or cached_result []), w1)
           else (case vector_search e query w1 of
                   (results, w2) \<Rightarrow>
                     (case (if results = [] then rpc_with_fallbacks e query w2 else (results, w2)) of
                        (results3, w3) \<Rightarrow>
                          (if redis_available e \<and> results3 \<noteq> []
                           then (Returns results3,
                                 snd (set_in_cache e (cache_key query) results3 default_expire w3))
                           else (Returns results3, w3))))))"

text \<open>Lines 314-441: the availability guard and the outer handler.\<close>

definition search_knowledge_base :: "env \<Rightarrow> string \<Rightarrow> world \<Rightarrow> kb_record list outcome \<times> world" where
  "search_knowledge_base e query w =
     (if \<not> supabase_available e \<and> (DB_USER e = None \<or> DB_USER e = Some [])
      then (Returns [ErrorRecord ''Knowledge base is not available''], w)
      else (case search_attempt e query w of
              (Raises ex, w1) \<Rightarrow> (Returns [ErrorRecord (''Search failed: '' @ str_of ex)], w1)
            | (Returns results, w1) \<Rightarrow> (Returns results, w1)))"

subsection \<open>The partner directory (lines 443-469)\<close>

text \<open>
  The one caller, \<open>supervisor_node\<close>, passes the message text as the filters. On a
  non-empty text the loop over \<^verbatim>\<open>filters.items()\<close> raises inside the
  \<^verbatim>\<open>try\<close> before the query is executed, and the handler returns the empty list; on
  the empty text the unfiltered query is executed. \<open>partner_query\<close> stands for that
  execution, which raises or returns the rows. The functions decorated with
  \<^verbatim>\<open>@tool\<close> are modelled as the functions they wrap.
\<close>

definition get_ecosystem_partners :: "env \<Rightarrow> string \<Rightarrow> world \<Rightarrow> partner list \<times> world" where
  "get_ecosystem_partners e filters w =
     (if \<not> supabase_available e then ([PartnerError ''Database is not available''], w)
      else if filters \<noteq> [] then ([], w)
      else (let w1 = note_call (Partner_lookup filters) w in
            case partner_query e filters of
              Raises ex \<Rightarrow> ([], w1)
            | Returns data \<Rightarrow> (data, w1)))"

section \<open>The nodes of node.py\<close>

text \<open>
  The state is a dictionary read with \<^verbatim>\<open>state.get(key, default)\<close>: every key is
  optional. A \<^verbatim>\<open>Command\<close> names the next node and carries the update dictionary,
  kept as the list of its entries in the order of the source.
\<close>

record state =
  messages :: "string list option"
  specialists_to_call :: "string list option"
  routing_reasons :: "string list option"
  context' :: "kb_context option"
  specialist_responses :: "(string \<times> string) list option"
  final_response :: "string option"
  error :: "string option"
  feedback :: "bool option"

datatype update_entry =
    Error string
  | Final_response string
  | Context kb_context
  | Specialists_to_call "string list"
  | Routing_reasons "string list"
  | Specialist_responses "(string \<times> string) list"
  | Feedback bool

record command =
  goto :: string
  update :: "update_entry list"

definition empty_context :: kb_context where
  "empty_context = \<lparr>knowledge_base_results = None, ecosystem_partners = None\<rparr>"

definition PENDO_TOOLS :: "string list" where
  "PENDO_TOOLS = [''search_knowledge_base'', ''search_clean_energy_web'',
     ''search_massachusetts_resources'', ''search_clean_energy_occupations'',
     ''search_training_programs'']"

definition JASMINE_TOOLS :: "string list" where
  "JASMINE_TOOLS = [''search_knowledge_base'', ''search_clean_energy_web'',
     ''search_massachusetts_resources'', ''locate_ej_training_resources'',
     ''find_dei_programs'']"

definition MARCUS_TOOLS :: "string list" where
  "MARCUS_TOOLS = [''search_knowledge_base'', ''search_clean_energy_web'',
     ''search_massachusetts_resources'', ''search_clean_energy_occupations'',
     ''translate_military_occupation'', ''find_veteran_benefits'']"

definition MIGUEL_TOOLS :: "string list" where
  "MIGUEL_TOOLS = [''search_knowledge_base'', ''search_clean_energy_web'',
     ''search_massachusetts_resources'', ''search_clean_energy_occupations'',
     ''evaluate_international_credential'', ''find_international_integration_resources'']"

definition LIV_TOOLS :: "string list" where
  "LIV_TOOLS = [''search_knowledge_base'', ''search_clean_energy_web'',
     ''search_massachusetts_resources'', ''search_clean_energy_occupations'',
     ''analyze_resume'', ''get_career_paths'', ''find_training_resources'',
     ''match_jobs'', ''create_development_plan'']"

subsection \<open>Routing on the supervisor's response (lines 95-115)\<close>

definition any_in :: "string list \<Rightarrow> string \<Rightarrow> bool" where
  "any_in kws s = list_ex (\<lambda>kw. contains kw s) kws"

definition append_if :: "bool \<Rightarrow> 'a \<Rightarrow> 'a list \<Rightarrow> 'a list" where
  "append_if b x xs = (if b then xs @ [x] else xs)"

definition specialists_for :: "string \<Rightarrow> string list" where
  "specialists_for response_lower =
     append_if (any_in [''international'', ''visa'', ''credential''] response_lower) ''miguel''
       (append_if (any_in [''veteran'', ''military'', ''service''] response_lower) ''marcus''
          (append_if (any_in [''environmental justice'', ''equity'', ''community''] response_lower) ''jasmine''
             (append_if (any_in [''career'', ''resume'', ''skills''] response_lower) ''liv'' [])))"

definition reasons_for :: "string \<Rightarrow> string list" where
  "reasons_for response_lower =
     append_if (any_in [''international'', ''visa'', ''credential''] response_lower)
         ''International professional expertise needed''
       (append_if (any_in [''veteran'', ''military'', ''service''] response_lower)
            ''Veteran transition expertise needed''
          (append_if (any_in [''environmental justice'', ''equity'', ''community''] response_lower)
               ''Environmental justice expertise needed''
             (append_if (any_in [''career'', ''resume'', ''skills''] response_lower)
                  ''Career development expertise needed'' [])))"

subsection \<open>supervisor\_node (lines 67-145)\<close>

text \<open>Lines 78-85: the knowledge-base results, the partners and the context built from them.\<close>

definition grounding ::
  "env \<Rightarrow> string \<Rightarrow> world \<Rightarrow> (kb_record list \<times> kb_context \<times> world) outcome" where
  "grounding e latest_msg w =
     (case search_knowledge_base e latest_msg w of
        (Raises ex, w1) \<Rightarrow> Raises ex
      | (Returns kb_results, w1) \<Rightarrow>
          (case get_ecosystem_partners e latest_msg w1 of
             (partners, w2) \<Rightarrow>
               Returns (kb_results,
                        \<lparr>knowledge_base_results = (if kb_results \<noteq> [] then Some kb_results else None),
                         ecosystem_partners = (if partners \<noteq> [] then Some partners else None)\<rparr>,
                        w2)))"

definition supervisor_node :: "env \<Rightarrow> state \<Rightarrow> world \<Rightarrow> command outcome \<times> world" where
  "supervisor_node e st w =
     (case get_or (messages st) [] of
        [] \<Rightarrow> (Returns \<lparr>goto = ''END'', update = [Error ''No messages found'']\<rparr>, w)
      | m # ms \<Rightarrow>
          (let latest_msg = last (m # ms) in
           case grounding e latest_msg w of
             Raises ex \<Rightarrow> (Raises ex, w)
           | Returns (kb_results, context, w2) \<Rightarrow>
               (let response = execute_agent e ''pendo'' PENDO_TOOLS [latest_msg] context;
                    w3 = note_call (Agent ''pendo'') w2;
                    response_lower = lower response;
                    specialists = specialists_for response_lower;
                    reasons = reasons_for response_lower
                in if specialists = [] \<and> kb_results \<noteq> []
                   then (Returns \<lparr>goto = ''END'',
                           update = [Final_response response, Context context]\<rparr>, w3)
                   else if specialists \<noteq> []
                   then (Returns \<lparr>goto = ''human_feedback'',
                           update = [Specialists_to_call specialists, Routing_reasons reasons,
                                     Context context]\<rparr>, w3)
                   else (Returns \<lparr>goto = ''END'',
                           update = [Final_response response, Context context]\<rparr>, w3))))"

subsection \<open>human\_feedback\_node (lines 147-175)\<close>

text \<open>
  The feedback is the constant \<^verbatim>\<open>{"approved": True}\<close> of line 162;
  \<^verbatim>\<open>specialists[0]\<close> raises \<^verbatim>\<open>IndexError\<close> on the empty list.
\<close>

definition human_feedback_node :: "state \<Rightarrow> command outcome" where
  "human_feedback_node st =
     (let specialists = get_or (specialists_to_call st) [];
          context = get_or (context' st) empty_context;
          approved = True
      in if approved
         then (case specialists of
                 [] \<Rightarrow> Raises IndexError
               | first # others \<Rightarrow> Returns \<lparr>goto = first, update = [Context context]\<rparr>)
         else Returns \<lparr>goto = ''supervisor'', update = [Feedback approved]\<rparr>)"

subsection \<open>integrate\_responses\_node (lines 177-193)\<close>

definition analysis_of :: "string \<times> string \<Rightarrow> string" where
  "analysis_of sr =
     (case sr of (specialist, response) \<Rightarrow>
        capitalize specialist @ [CHR 0x27] @ ''s Analysis:'' @ [CHR 0x0A] @ response
          @ [CHR 0x0A, CHR 0x0A])"

definition integrated_response :: "(string \<times> string) list \<Rightarrow> string" where
  "integrated_response rs =
     foldl (\<lambda>acc sr. acc @ analysis_of sr)
       (''Integrated insights from specialists:'' @ [CHR 0x0A, CHR 0x0A]) rs"

definition integrate_responses_node :: "state \<Rightarrow> command" where
  "integrate_responses_node st =
     (let responses = get_or (specialist_responses st) [] in
      if responses = []
      then \<lparr>goto = ''supervisor'', update = [Error ''No specialist responses to integrate'']\<rparr>
      else \<lparr>goto = ''supervisor'', update = [Final_response (integrated_response responses)]\<rparr>)"

subsection \<open>The specialist nodes (lines 196-278)\<close>

definition liv_node :: "env \<Rightarrow> state \<Rightarrow> world \<Rightarrow> command outcome \<times> world" where
  "liv_node e st w =
     (let response = execute_agent e ''liv'' LIV_TOOLS
                       (get_or (messages st) []) (get_or (context' st) empty_context)
      in (Returns \<lparr>goto = ''supervisor'',
                   update = [Specialist_responses [(''liv'', response)]]\<rparr>,
          note_call (Agent ''liv'') w))"

definition jasmine_node :: "env \<Rightarrow> state \<Rightarrow> world \<Rightarrow> command outcome \<times> world" where
  "jasmine_node e st w =
     (let response = execute_agent e ''jasmine'' JASMINE_TOOLS
                       (get_or (messages st) []) (get_or (context' st) empty_context)
      in (Returns \<lparr>goto = ''supervisor'',
                   update = [Specialist_responses [(''jasmine'', response)]]\<rparr>,
          note_call (Agent ''jasmine'') w))"

definition marcus_node :: "env \<Rightarrow> state \<Rightarrow> world \<Rightarrow> command outcome \<times> world" where
  "marcus_node e st w =
     (let response = execute_agent e ''marcus'' MARCUS_TOOLS
                       (get_or (messages st) []) (get_or (context' st) empty_context)
      in (Returns \<lparr>goto = ''supervisor'',
                   update = [Specialist_responses [(''marcus'', response)]]\<rparr>,
          note_call (Agent ''marcus'') w))"

definition miguel_node :: "env \<Rightarrow> state \<Rightarrow> world \<Rightarrow> command outcome \<times> world" where
  "miguel_node e st w =
     (let response = execute_agent e ''miguel'' MIGUEL_TOOLS
                       (get_or (messages st) []) (get_or (context' st) empty_context)
      in (Returns \<lparr>goto = ''supervisor'',
                   update = [Specialist_responses [(''miguel'', response)]]\<rparr>,
          note_call (Agent ''miguel'') w))"

section \<open>The graph of graph.py\<close>

text \<open>
  \<^verbatim>\<open>create_climate_graph\<close> registers the seven nodes under their names (lines
  48-54), makes the supervisor the entry point (line 57) and declares the edges of lines
  60-78: for every specialist an edge from the supervisor, one back to the supervisor and
  one to the integration node, the edges between the supervisor and the human-feedback
  and integration nodes, and the edge from the supervisor to the end. The loop that
  runs a compiled graph belongs to the graph library and is not part of these sources.
\<close>

definition graph_nodes ::
  "env \<Rightarrow> (string \<times> (state \<Rightarrow> world \<Rightarrow> command outcome \<times> world)) list" where
  "graph_nodes e =
     [(''supervisor'', supervisor_node e),
      (''liv'', liv_node e),
      (''jasmine'', jasmine_node e),
      (''marcus'', marcus_node e),
      (''miguel'', miguel_node e),
      (''integrate'', \<lambda>st w. (Returns (integrate_responses_node st), w)),
      (''human_feedback'', \<lambda>st w. (human_feedback_node st, w))]"

definition entry_point :: string where
  "entry_point = ''supervisor''"



text \<open>
  One transition along a command: the node registered under the current name runs on the
  state, the update of its command is written into the state key by key (as
  \<^verbatim>\<open>state_data.update(updates)\<close> of \<^verbatim>\<open>chat.py\<close> does), and the command names
  the next node.
\<close>

fun apply_entry :: "state \<Rightarrow> update_entry \<Rightarrow> state" where
  "apply_entry st (Error msg) = st\<lparr>error := Some msg\<rparr>"
| "apply_entry st (Final_response r) = st\<lparr>final_response := Some r\<rparr>"
| "apply_entry st (Context c) = st\<lparr>context' := Some c\<rparr>"
| "apply_entry st (Specialists_to_call xs) = st\<lparr>specialists_to_call := Some xs\<rparr>"
| "apply_entry st (Routing_reasons xs) = st\<lparr>routing_reasons := Some xs\<rparr>"
| "apply_entry st (Specialist_responses rs) = st\<lparr>specialist_responses := Some rs\<rparr>"
| "apply_entry st (Feedback b) = st\<lparr>feedback := Some b\<rparr>"

definition apply_update :: "state \<Rightarrow> update_entry list \<Rightarrow> state" where
  "apply_update st entries = foldl apply_entry st entries"

definition step :: "env \<Rightarrow> string \<times> state \<times> world \<Rightarrow> (string \<times> state \<times> world) outcome" where
  "step e c =
     (case c of (node, st, w) \<Rightarrow>
        (case map_of (graph_nodes e) node of
           None \<Rightarrow> Raises (Failure (''unknown node: '' @ node))
         | Some node_fn \<Rightarrow>
             (case node_fn st w of
                (Raises ex, w1) \<Rightarrow> Raises ex
              | (Returns cmd, w1) \<Rightarrow> Returns (goto cmd, apply_update st (update cmd), w1))))"

section \<open>Notions of the specification\<close>



text \<open>
  The knowledge base is available when the guard of line 316 lets the call through. A
  strategy fails when its service is missing, when its call raises, or when its response
  is malformed, so that the loop over its rows raises.
\<close>

fun is_raise :: "'a outcome \<Rightarrow> bool" where
  "is_raise (Raises ex) = True"
| "is_raise (Returns v) = False"

fun is_malformed :: "'a raw \<Rightarrow> bool" where
  "is_malformed (Malformed ex) = True"
| "is_malformed (Wellformed x) = False"

definition response_fails :: "'a raw list outcome \<Rightarrow> bool" where
  "response_fails r = (case r of Raises ex \<Rightarrow> True | Returns rows \<Rightarrow> list_ex is_malformed rows)"

definition kb_available :: "env \<Rightarrow> bool" where
  "kb_available e = (supabase_available e \<or> (DB_USER e \<noteq> None \<and> DB_USER e \<noteq> Some []))"

definition vector_fails :: "env \<Rightarrow> string \<Rightarrow> bool" where
  "vector_fails e query =
     (case vector_store e of None \<Rightarrow> True | Some search \<Rightarrow> response_fails (search query 5))"

definition rpc_fails :: "env \<Rightarrow> string \<Rightarrow> bool" where
  "rpc_fails e query =
     (case embed_query e query of
        Raises ex \<Rightarrow> True
      | Returns v \<Rightarrow> response_fails (rpc_match_documents e v 5 []))"

definition direct_fails :: "env \<Rightarrow> string \<Rightarrow> bool" where
  "direct_fails e query =
     (case db_connect e of
        None \<Rightarrow> True
      | Some cursor_execute \<Rightarrow>
          response_fails (cursor_execute (sql_query (sql_conditions (split (lower query))))))"

definition keyword_fails :: "env \<Rightarrow> string \<Rightarrow> bool" where
  "keyword_fails e query =
     (case split (lower query) of
        [] \<Rightarrow> True
      | main_keyword # rest \<Rightarrow> response_fails (table_ilike e main_keyword 5))"

text \<open>
  The cache probe hits when lines 324-326 return the cached value; it fails when Redis is
  unavailable or unreachable, the key is absent or expired, or the value is empty. Every
  strategy fails when the probe does not hit and each of the four later strategies fails.
  The \<^verbatim>\<open>match_documents\<close> strategy has raised when control enters the handler of
  line 372. \<open>full_cascade\<close> lists every service call of a lookup in the order of the
  source.
\<close>

definition cache_hit :: "env \<Rightarrow> string \<Rightarrow> world \<Rightarrow> bool" where
  "cache_hit e query w =
     (redis_available e \<and> fst (get_from_cache e (cache_key query) w) \<noteq> None
      \<and> fst (get_from_cache e (cache_key query) w) \<noteq> Some [])"

definition every_strategy_fails :: "env \<Rightarrow> string \<Rightarrow> world \<Rightarrow> bool" where
  "every_strategy_fails e query w =
     (\<not> cache_hit e query w \<and> vector_fails e query \<and> rpc_fails e query
      \<and> direct_fails e query \<and> keyword_fails e query)"

definition rpc_raised :: "env \<Rightarrow> string \<Rightarrow> world \<Rightarrow> bool" where
  "rpc_raised e query w = (fst (snd (match_documents e query w)) \<noteq> None)"

definition full_cascade :: "string \<Rightarrow> call list" where
  "full_cascade query =
     [Cache_get (cache_key query), Vector_search query, Embed_query query, Rpc_match_documents,
      Direct_db_query (sql_query (sql_conditions (split (lower query))))]
     @ (case split (lower query) of [] \<Rightarrow> [] | main_keyword # rest \<Rightarrow> [Api_keyword main_keyword])
     @ [Cache_set (cache_key query)]"

text \<open>
  The service calls each strategy makes: the RPC strategy embeds the query and, unless that
  raised, calls the procedure; the direct fallback queries the database if a condition was
  built; the keyword fallback queries the table if there is a keyword. \<open>fallback_calls\<close>
  are the calls of lines 349-432.
\<close>

definition rpc_calls :: "env \<Rightarrow> string \<Rightarrow> call list" where
  "rpc_calls e query =
     (if is_raise (embed_query e query) then [Embed_query query]
      else [Embed_query query, Rpc_match_documents])"

definition direct_calls :: "string \<Rightarrow> call list" where
  "direct_calls query =
     (if sql_conditions (split (lower query)) = [] then []
      else [Direct_db_query (sql_query (sql_conditions (split (lower query))))])"

definition keyword_calls :: "string \<Rightarrow> call list" where
  "keyword_calls query =
     (case split (lower query) of [] \<Rightarrow> [] | main_keyword # rest \<Rightarrow> [Api_keyword main_keyword])"

definition fallback_calls :: "env \<Rightarrow> string \<Rightarrow> world \<Rightarrow> call list" where
  "fallback_calls e q w =
     (if rpc_raised e q w
      then rpc_calls e q @ direct_calls q
             @ (if fst (direct_query_fallback e q (fst (match_documents e q w)) w) = []
                then keyword_calls q else [])
      else rpc_calls e q)"

section \<open>Sample configurations\<close>

definition empty_state :: state where
  "empty_state = \<lparr>messages = None, specialists_to_call = None, routing_reasons = None,
     context' = None, specialist_responses = None, final_response = None, error = None,
     feedback = None\<rparr>"

definition empty_world :: world where
  "empty_world = \<lparr>redis_store = Map.empty, clock = 0, calls = []\<rparr>"

text \<open>Nothing is configured; the agent's answer names a career and an equity topic.\<close>

definition env_off :: env where
  "env_off = \<lparr>supabase_available = False, DB_USER = None, redis_available = False,
     redis_client = False, redis_reachable = False, vector_store = None,
     embed_query = (\<lambda>q. Raises (Failure ''embeddings unavailable'')),
     rpc_match_documents = (\<lambda>v n d. Raises (Failure ''rpc unavailable'')),
     db_connect = None,
     table_ilike = (\<lambda>k n. Raises (Failure ''api unavailable'')),
     partner_query = (\<lambda>f. Raises (Failure ''api unavailable'')),
     execute_agent = (\<lambda>persona tools msgs c. ''Explore a career in solar and check equity programs'')\<rparr>"

definition solar_doc :: document where
  "solar_doc = \<lparr>page_content = ''Solar installer training'',
     doc_metadata = [(''id'', ''kb-1''), (''title'', ''Solar jobs'')]\<rparr>"

definition solar_record :: kb_record where
  "solar_record = KbRecord ''kb-1'' ''Solar installer training'' ''Solar jobs'' []
     [(''id'', ''kb-1''), (''title'', ''Solar jobs'')] (9 / 10)"

definition wind_item :: item where
  "wind_item = \<lparr>item_id = Some ''kb-2'', item_content = Some ''Offshore wind technician jobs'',
     item_title = None, item_summary = None, item_metadata = None, item_similarity = None\<rparr>"

text \<open>The vector store answers with one document; Redis works.\<close>

definition env_live :: env where
  "env_live = \<lparr>supabase_available = True, DB_USER = None, redis_available = True,
     redis_client = True, redis_reachable = True,
     vector_store = Some (\<lambda>q k. Returns [Wellformed (solar_doc, 9 / 10)]),
     embed_query = (\<lambda>q. Returns []),
     rpc_match_documents = (\<lambda>v n d. Returns []),
     db_connect = None,
     table_ilike = (\<lambda>k n. Returns []),
     partner_query = (\<lambda>f. Returns []),
     execute_agent = (\<lambda>persona tools msgs c. ''Solar programs are listed by MassCEC'')\<rparr>"

definition env_no_redis :: env where
  "env_no_redis = env_live\<lparr>redis_available := False\<rparr>"

definition env_cache_only :: env where
  "env_cache_only = env_off\<lparr>redis_available := True, redis_client := True, redis_reachable := True\<rparr>"

text \<open>
  The vector store and \<^verbatim>\<open>match_documents\<close> answer with no row and do not raise; the
  database and the table API would each answer with a row.
\<close>

definition env_rpc_empty :: env where
  "env_rpc_empty = \<lparr>supabase_available = True, DB_USER = Some ''postgres'', redis_available = False,
     redis_client = False, redis_reachable = False,
     vector_store = Some (\<lambda>q k. Returns []),
     embed_query = (\<lambda>q. Returns []),
     rpc_match_documents = (\<lambda>v n d. Returns []),
     db_connect = Some (\<lambda>q. Returns [Wellformed wind_item]),
     table_ilike = (\<lambda>k n. Returns [Wellformed wind_item]),
     partner_query = (\<lambda>f. Returns []),
     execute_agent = (\<lambda>persona tools msgs c. ''Solar programs are listed by MassCEC'')\<rparr>"

text \<open>As before, but \<^verbatim>\<open>match_documents\<close> raises.\<close>

definition env_rpc_raises :: env where
  "env_rpc_raises = env_rpc_empty\<lparr>rpc_match_documents := (\<lambda>v n d. Raises (Failure ''rpc unavailable''))\<rparr>"

definition cached_world :: world where
  "cached_world = \<lparr>redis_store = [cache_key ''solar jobs'' \<mapsto> ([solar_record], 3600)],
     clock = 10, calls = []\<rparr>"

definition first_world :: world where
  "first_world = \<lparr>redis_store = [cache_key ''solar jobs'' \<mapsto> ([solar_record], 3600)],
     clock = 0,
     calls = [Cache_get (cache_key ''solar jobs''), Vector_search ''solar jobs'',
              Cache_set (cache_key ''solar jobs'')]\<rparr>"





text \<open>
  The RPC answers with a row and an element that is not a dictionary; there is no vector
  store, the database cannot be reached and the table query raises.
\<close>

definition env_rpc_partial :: env where
  "env_rpc_partial = \<lparr>supabase_available = True, DB_USER = None, redis_available = False,
     redis_client = False, redis_reachable = False, vector_store = None,
     embed_query = (\<lambda>q. Returns []),
     rpc_match_documents = (\<lambda>v n d. Returns [Wellformed wind_item, Malformed (Failure ''AttributeError'')]),
     db_connect = None,
     table_ilike = (\<lambda>k n. Raises (Failure ''api unavailable'')),
     partner_query = (\<lambda>f. Raises (Failure ''api unavailable'')),
     execute_agent = (\<lambda>persona tools msgs c. ''Solar programs are listed by MassCEC'')\<rparr>"

section \<open>The supervisor and the nodes\<close>

text \<open>
  C10. On a state whose message list is empty or absent, \<open>supervisor_node\<close> returns the
  command to \<^verbatim>\<open>END\<close> whose update is the error "No messages found" alone: it sets no
  final response, and the world is returned as it was, so neither the knowledge base, nor
  the partner directory, nor the agent has been called.
\<close>

theorem supervisor_node_no_messages:
  assumes "messages st = None \<or> messages st = Some []"
  shows "supervisor_node e st w =
           (Returns \<lparr>goto = ''END'', update = [Error ''No messages found'']\<rparr>, w)"
  using assms by (auto simp: supervisor_node_def get_or_def)

theorem supervisor_node_no_messages_witness:
  "supervisor_node env_off empty_state empty_world =
     (Returns \<lparr>goto = ''END'', update = [Error ''No messages found'']\<rparr>, empty_world)
   \<and> supervisor_node env_off (empty_state\<lparr>messages := Some []\<rparr>) empty_world =
     (Returns \<lparr>goto = ''END'', update = [Error ''No messages found'']\<rparr>, empty_world)"
  using supervisor_node_no_messages [of empty_state env_off empty_world]
        supervisor_node_no_messages [of "empty_state\<lparr>messages := Some []\<rparr>" env_off empty_world]
  by (simp add: empty_state_def)

text \<open>
  C6. On a state whose map of specialist responses is empty or absent,
  \<open>integrate_responses_node\<close> returns the command to the supervisor whose update is the
  error alone; following it, the turn is at the supervisor with the error set and the
  final response untouched.
\<close>

theorem integrate_empty_returns_to_supervisor:
  assumes "specialist_responses st = None \<or> specialist_responses st = Some []"
  shows "integrate_responses_node st =
           \<lparr>goto = ''supervisor'', update = [Error ''No specialist responses to integrate'']\<rparr>
         \<and> step e (''integrate'', st, w) =
           Returns (''supervisor'', st\<lparr>error := Some ''No specialist responses to integrate''\<rparr>, w)"
  using assms
  by (auto simp: integrate_responses_node_def get_or_def step_def graph_nodes_def apply_update_def)

theorem integrate_empty_returns_to_supervisor_witness:
  "integrate_responses_node empty_state =
     \<lparr>goto = ''supervisor'', update = [Error ''No specialist responses to integrate'']\<rparr>
   \<and> step env_off (''integrate'', empty_state, empty_world) =
     Returns (''supervisor'',
              empty_state\<lparr>error := Some ''No specialist responses to integrate''\<rparr>, empty_world)"
  using integrate_empty_returns_to_supervisor [of empty_state env_off empty_world]
  by (simp add: empty_state_def)

text \<open>
  C9. \<open>human_feedback_node\<close> is partial: the feedback being the approval of line 162, it
  raises \<^verbatim>\<open>IndexError\<close> on every state whose \<^verbatim>\<open>specialists_to_call\<close> is empty or
  absent, and on a non-empty list it returns the command to the first specialist.
\<close>

theorem human_feedback_node_partial:
  "(specialists_to_call st = None \<or> specialists_to_call st = Some []
      \<longrightarrow> human_feedback_node st = Raises IndexError)
   \<and> (\<forall>first others. specialists_to_call st = Some (first # others)
      \<longrightarrow> human_feedback_node st =
            Returns \<lparr>goto = first, update = [Context (get_or (context' st) empty_context)]\<rparr>)"
  by (auto simp: human_feedback_node_def get_or_def)

theorem human_feedback_node_partial_witness:
  "human_feedback_node empty_state = Raises IndexError
   \<and> human_feedback_node (empty_state\<lparr>specialists_to_call := Some []\<rparr>) = Raises IndexError
   \<and> human_feedback_node (empty_state\<lparr>specialists_to_call := Some [''liv'', ''marcus'']\<rparr>) =
       Returns \<lparr>goto = ''liv'', update = [Context empty_context]\<rparr>"
  using human_feedback_node_partial [of empty_state]
        human_feedback_node_partial [of "empty_state\<lparr>specialists_to_call := Some []\<rparr>"]
        human_feedback_node_partial [of "empty_state\<lparr>specialists_to_call := Some [''liv'', ''marcus'']\<rparr>"]
  by (simp add: empty_state_def get_or_def)

section \<open>The lookup never raises\<close>

lemma search_attempt_returns:
  "\<exists>results w'. search_attempt e query w = (Returns results, w')"
  by (auto simp: search_attempt_def split: prod.splits)

lemma search_knowledge_base_returns:
  "\<exists>results w'. search_knowledge_base e query w = (Returns results, w')"
  using search_attempt_returns [of e query w]
  by (auto simp: search_knowledge_base_def)

lemma append_each_raises:
  "snd (append_each f rows results) \<noteq> None \<longleftrightarrow> list_ex is_malformed rows"
  by (induction f rows results rule: append_each.induct) simp_all

lemma rpc_fails_iff_raised: "rpc_fails e query = rpc_raised e query w"
proof (cases "embed_query e query")
  case (Raises ex)
  then show ?thesis
    by (simp add: rpc_fails_def rpc_raised_def match_documents_def)
next
  case v: (Returns v)
  show ?thesis
  proof (cases "rpc_match_documents e v 5 []")
    case (Raises ex)
    with v show ?thesis
      by (simp add: rpc_fails_def rpc_raised_def response_fails_def match_documents_def)
  next
    case r: (Returns rows)
    obtain rs raised where a: "append_each (item_record rpc_similarity) rows [] = (rs, raised)"
      by (cases "append_each (item_record rpc_similarity) rows []") auto
    with append_each_raises [of "item_record rpc_similarity" rows "[]"]
    have "raised \<noteq> None \<longleftrightarrow> list_ex is_malformed rows" by simp
    with v r a show ?thesis
      by (simp add: rpc_fails_def rpc_raised_def response_fails_def match_documents_def)
  qed
qed

text \<open>
  C1. The lookup raises nothing (\<open>search_knowledge_base_returns\<close>), but on a total
  failure it can return a record that is neither the empty list nor a record carrying a
  reason. Here there is no vector store, the RPC answers with a row followed by an element
  that is not a dictionary, the database cannot be reached and the table query raises:
  every strategy fails, the \<^verbatim>\<open>match_documents\<close> handler is entered, and the call
  returns the one row converted before the loop raised.
\<close>

theorem partial_records_on_total_failure:
  "every_strategy_fails env_rpc_partial ''wind jobs'' empty_world
   \<and> rpc_raised env_rpc_partial ''wind jobs'' empty_world
   \<and> fst (search_knowledge_base env_rpc_partial ''wind jobs'' empty_world) =
       Returns [KbRecord ''kb-2'' ''Offshore wind technician jobs'' ''Untitled'' [] [] 0]
   \<and> calls (snd (search_knowledge_base env_rpc_partial ''wind jobs'' empty_world)) =
       [Embed_query ''wind jobs'', Rpc_match_documents,
        Direct_db_query (sql_query (sql_conditions (split (lower ''wind jobs''))))]"
proof -
  have f: "every_strategy_fails env_rpc_partial ''wind jobs'' empty_world"
    by (simp add: every_strategy_fails_def cache_hit_def vector_fails_def rpc_fails_def
        direct_fails_def keyword_fails_def response_fails_def env_rpc_partial_def
        split_def lower_def lower_char_def is_space_def)
  have r: "rpc_raised env_rpc_partial ''wind jobs'' empty_world"
    by (simp add: rpc_raised_def match_documents_def env_rpc_partial_def)
  have s: "search_knowledge_base env_rpc_partial ''wind jobs'' empty_world =
      (Returns [KbRecord ''kb-2'' ''Offshore wind technician jobs'' ''Untitled'' [] [] 0],
       empty_world\<lparr>calls := [Embed_query ''wind jobs'', Rpc_match_documents,
        Direct_db_query (sql_query (sql_conditions (split (lower ''wind jobs''))))]\<rparr>)"
    by (simp add: search_knowledge_base_def search_attempt_def vector_search_def
        rpc_with_fallbacks_def match_documents_def direct_query_fallback_def direct_db_query_def
        get_db_connection_def sql_conditions_def split_def lower_def lower_char_def is_space_def
        item_record_def rpc_similarity_def get_or_def wind_item_def
        env_rpc_partial_def empty_world_def note_call_def)
  from f r s show ?thesis by simp
qed

section \<open>The cache\<close>

lemma note_call_frame [simp]:
  "redis_store (note_call c w) = redis_store w"
  "clock (note_call c w) = clock w"
  "calls (note_call c w) = calls w @ [c]"
  by (simp_all add: note_call_def)

lemma get_from_cache_frame [simp]:
  "redis_store (snd (get_from_cache e key w)) = redis_store w"
  "clock (snd (get_from_cache e key w)) = clock w"
  by (auto simp: get_from_cache_def redis_get_def Let_def split: option.splits)

lemma vector_search_frame [simp]:
  "redis_store (snd (vector_search e query w)) = redis_store w"
  "clock (snd (vector_search e query w)) = clock w"
  by (auto simp: vector_search_def Let_def split: option.splits outcome.splits)

lemma match_documents_frame [simp]:
  "redis_store (snd (snd (match_documents e query w))) = redis_store w"
  "clock (snd (snd (match_documents e query w))) = clock w"
  by (auto simp: match_documents_def Let_def split: outcome.splits prod.splits)

lemma direct_query_fallback_frame [simp]:
  "redis_store (snd (direct_query_fallback e query rs w)) = redis_store w"
  "clock (snd (direct_query_fallback e query rs w)) = clock w"
  by (auto simp: direct_query_fallback_def direct_db_query_def Let_def
      split: option.splits outcome.splits prod.splits)

lemma keyword_fallback_frame [simp]:
  "redis_store (snd (keyword_fallback e query rs w)) = redis_store w"
  "clock (snd (keyword_fallback e query rs w)) = clock w"
  by (auto simp: keyword_fallback_def Let_def split: list.splits outcome.splits)

lemma rpc_with_fallbacks_frame [simp]:
  "redis_store (snd (rpc_with_fallbacks e query w)) = redis_store w"
  "clock (snd (rpc_with_fallbacks e query w)) = clock w"
proof -
  obtain rs raised w1 where m: "match_documents e query w = (rs, raised, w1)"
    by (cases "match_documents e query w") auto
  then have f1: "redis_store w1 = redis_store w" "clock w1 = clock w"
    using match_documents_frame [of e query w] by simp_all
  obtain rs2 w2 where d: "direct_query_fallback e query rs w1 = (rs2, w2)"
    by (cases "direct_query_fallback e query rs w1") auto
  then have f2: "redis_store w2 = redis_store w1" "clock w2 = clock w1"
    using direct_query_fallback_frame [of e query rs w1] by simp_all
  show "redis_store (snd (rpc_with_fallbacks e query w)) = redis_store w"
    using m d f1 f2 by (cases raised) (simp_all add: rpc_with_fallbacks_def)
  show "clock (snd (rpc_with_fallbacks e query w)) = clock w"
    using m d f1 f2 by (cases raised) (simp_all add: rpc_with_fallbacks_def)
qed

lemma get_from_cache_hit:
  assumes "redis_available e" "redis_client e" "redis_reachable e"
      and "redis_store w key = Some (cached, expires)" "clock w < expires"
  shows "get_from_cache e key w = (Some cached, note_call (Cache_get key) w)"
  using assms by (simp add: get_from_cache_def redis_get_def Let_def)

lemma set_in_cache_ok:
  assumes "redis_available e" "redis_client e" "redis_reachable e"
  shows "set_in_cache e key v expire w =
           (True, (note_call (Cache_set key) w)
                    \<lparr>redis_store := (redis_store w)(key \<mapsto> (v, clock w + expire))\<rparr>)"
  using assms by (simp add: set_in_cache_def redis_setex_def Let_def)

lemma search_attempt_hit:
  assumes "redis_available e" "redis_client e" "redis_reachable e"
      and "redis_store w (cache_key query) = Some (cached, expires)" "clock w < expires"
      and "cached \<noteq> []"
  shows "search_attempt e query w = (Returns cached, note_call (Cache_get (cache_key query)) w)"
  using assms get_from_cache_hit [OF assms(1-5)]
  by (simp add: search_attempt_def get_or_def)

lemma search_knowledge_base_hit:
  assumes "kb_available e" "redis_available e" "redis_client e" "redis_reachable e"
      and "redis_store w (cache_key query) = Some (cached, expires)" "clock w < expires"
      and "cached \<noteq> []"
  shows "search_knowledge_base e query w =
           (Returns cached, note_call (Cache_get (cache_key query)) w)"
  using assms(1) search_attempt_hit [OF assms(2-7)]
  by (auto simp: search_knowledge_base_def kb_available_def)

text \<open>
  C3, as the claim states it, fails where the guard of line 316 stands before the cache:
  with neither Supabase nor a database user configured, a key that holds an unexpired
  value in a reachable Redis is not looked up, and the call returns the record "Knowledge
  base is not available" instead of the cached list.
\<close>

theorem cache_hit_counterexample:
  "redis_store cached_world (cache_key ''solar jobs'') = Some ([solar_record], 3600)
   \<and> fst (get_from_cache env_cache_only (cache_key ''solar jobs'') cached_world) = Some [solar_record]
   \<and> search_knowledge_base env_cache_only ''solar jobs'' cached_world =
       (Returns [ErrorRecord ''Knowledge base is not available''], cached_world)
   \<and> fst (search_knowledge_base env_cache_only ''solar jobs'' cached_world) \<noteq>
       Returns [solar_record]"
  by (simp add: search_knowledge_base_def get_from_cache_def redis_get_def env_cache_only_def
      env_off_def cached_world_def solar_record_def note_call_def)

text \<open>
  C3, amended. When the knowledge base is available, Redis is available and reachable, and
  the key of the query holds a non-empty value that has not expired, the call returns that
  value, and the world it leaves differs from the one it found by the single cache read:
  no strategy 2-5 is called and nothing is written to the cache.
\<close>

theorem cache_hit_short_circuits:
  assumes "kb_available e" "redis_available e" "redis_client e" "redis_reachable e"
      and "redis_store w (cache_key query) = Some (cached, expires)" "clock w < expires"
      and "cached \<noteq> []"
  shows "search_knowledge_base e query w =
           (Returns cached, note_call (Cache_get (cache_key query)) w)
         \<and> calls (snd (search_knowledge_base e query w)) = calls w @ [Cache_get (cache_key query)]
         \<and> redis_store (snd (search_knowledge_base e query w)) = redis_store w"
  using search_knowledge_base_hit [OF assms] by simp

theorem cache_hit_short_circuits_witness:
  "search_knowledge_base env_live ''solar jobs'' cached_world =
     (Returns [solar_record], note_call (Cache_get (cache_key ''solar jobs'')) cached_world)
   \<and> calls (snd (search_knowledge_base env_live ''solar jobs'' cached_world)) =
       [Cache_get (cache_key ''solar jobs'')]
   \<and> redis_store (snd (search_knowledge_base env_live ''solar jobs'' cached_world)) =
       redis_store cached_world"
proof -
  have h: "kb_available env_live" "redis_available env_live" "redis_client env_live"
    "redis_reachable env_live"
    "redis_store cached_world (cache_key ''solar jobs'') = Some ([solar_record], 3600)"
    "clock cached_world < 3600" "[solar_record] \<noteq> []"
    by (simp_all add: kb_available_def env_live_def cached_world_def)
  from cache_hit_short_circuits [OF h] show ?thesis
    by (simp add: cached_world_def)
qed

lemma search_attempt_write_back:
  assumes r: "redis_available e" "redis_client e" "redis_reachable e"
      and miss: "fst (get_from_cache e (cache_key query) w) = None
                 \<or> fst (get_from_cache e (cache_key query) w) = Some []"
      and first: "search_attempt e query w = (Returns results, w1)" "results \<noteq> []"
  shows "redis_store w1 = (redis_store w)(cache_key query \<mapsto> (results, clock w + default_expire))"
proof -
  obtain cached wa where g: "get_from_cache e (cache_key query) w = (cached, wa)"
    by (cases "get_from_cache e (cache_key query) w") auto
  then have fa: "redis_store wa = redis_store w" "clock wa = clock w"
    using get_from_cache_frame [of e "cache_key query" w] by simp_all
  from g miss have c: "cached = None \<or> cached = Some []" by simp
  obtain rs wb where v: "vector_search e query wa = (rs, wb)"
    by (cases "vector_search e query wa") auto
  then have fb: "redis_store wb = redis_store wa" "clock wb = clock wa"
    using vector_search_frame [of e query wa] by simp_all
  obtain rs3 wc where f: "rpc_with_fallbacks e query wb = (rs3, wc)"
    by (cases "rpc_with_fallbacks e query wb") auto
  then have fc: "redis_store wc = redis_store wb" "clock wc = clock wb"
    using rpc_with_fallbacks_frame [of e query wb] by simp_all
  show ?thesis
  proof (cases "rs = []")
    case True
    with first g c v f r have "results = rs3"
      and "w1 = snd (set_in_cache e (cache_key query) rs3 default_expire wc)"
      by (auto simp: search_attempt_def split: if_splits)
    then show ?thesis
      using fa fb fc by (simp add: set_in_cache_ok [OF r])
  next
    case False
    with first g c v r have "results = rs"
      and "w1 = snd (set_in_cache e (cache_key query) rs default_expire wb)"
      by (auto simp: search_attempt_def split: if_splits)
    then show ?thesis
      using fa fb by (simp add: set_in_cache_ok [OF r])
  qed
qed

text \<open>
  C8, as the claim states it, fails where line 435 guards the write: with Redis marked
  unavailable, a non-empty result of the vector store is returned and nothing is written,
  so the second call runs the vector store again instead of reading the cache.
\<close>

theorem write_back_counterexample:
  "search_knowledge_base env_no_redis ''solar jobs'' empty_world =
     (Returns [solar_record], empty_world\<lparr>calls := [Vector_search ''solar jobs'']\<rparr>)
   \<and> redis_store (snd (search_knowledge_base env_no_redis ''solar jobs'' empty_world))
        (cache_key ''solar jobs'') = None
   \<and> calls (snd (search_knowledge_base env_no_redis ''solar jobs''
        (snd (search_knowledge_base env_no_redis ''solar jobs'' empty_world)))) =
       [Vector_search ''solar jobs'', Vector_search ''solar jobs'']"
  by (simp add: search_knowledge_base_def search_attempt_def vector_search_def doc_record_def
      dict_get_def env_no_redis_def env_live_def empty_world_def solar_doc_def solar_record_def
      note_call_def)

text \<open>
  C8, amended. When the knowledge base is available and Redis is available and reachable, a
  non-empty result that did not come from the cache is stored under the key of the query
  with the expiry of 3600 seconds before the call returns; a second call with the same
  query, made on that store before the expiry, returns the same list from the cache with
  the single cache read, whichever strategy produced it.
\<close>

theorem write_back_then_cache_hit:
  assumes kb: "kb_available e"
      and r: "redis_available e" "redis_client e" "redis_reachable e"
      and miss: "fst (get_from_cache e (cache_key query) w) = None
                 \<or> fst (get_from_cache e (cache_key query) w) = Some []"
      and first: "search_knowledge_base e query w = (Returns results, w1)" "results \<noteq> []"
      and later: "redis_store w2 = redis_store w1" "clock w2 < clock w + default_expire"
  shows "redis_store w1 (cache_key query) = Some (results, clock w + default_expire)
         \<and> search_knowledge_base e query w2 =
             (Returns results, note_call (Cache_get (cache_key query)) w2)"
proof -
  from kb first(1) have sa: "search_attempt e query w = (Returns results, w1)"
    using search_attempt_returns [of e query w]
    by (auto simp: search_knowledge_base_def kb_available_def)
  have st: "redis_store w1 = (redis_store w)(cache_key query \<mapsto> (results, clock w + default_expire))"
    by (rule search_attempt_write_back [OF r miss sa first(2)])
  then have hit: "redis_store w2 (cache_key query) = Some (results, clock w + default_expire)"
    using later(1) by simp
  have "results \<noteq> []" by (rule first(2))
  from search_knowledge_base_hit [OF kb r hit later(2) this]
  show ?thesis using st by simp
qed

theorem write_back_then_cache_hit_witness:
  "search_knowledge_base env_live ''solar jobs'' empty_world = (Returns [solar_record], first_world)
   \<and> redis_store first_world (cache_key ''solar jobs'') = Some ([solar_record], 3600)
   \<and> search_knowledge_base env_live ''solar jobs'' (first_world\<lparr>clock := 1800\<rparr>) =
       (Returns [solar_record],
        note_call (Cache_get (cache_key ''solar jobs'')) (first_world\<lparr>clock := 1800\<rparr>))"
proof -
  have h: "kb_available env_live" "redis_available env_live" "redis_client env_live"
    "redis_reachable env_live"
    by (simp_all add: kb_available_def env_live_def)
  have miss: "fst (get_from_cache env_live (cache_key ''solar jobs'') empty_world) = None
      \<or> fst (get_from_cache env_live (cache_key ''solar jobs'') empty_world) = Some []"
    by (simp add: get_from_cache_def redis_get_def env_live_def empty_world_def)
  have first: "search_knowledge_base env_live ''solar jobs'' empty_world =
      (Returns [solar_record], first_world)"
    by (simp add: search_knowledge_base_def search_attempt_def get_from_cache_def redis_get_def
        set_in_cache_def redis_setex_def vector_search_def doc_record_def dict_get_def
        env_live_def empty_world_def first_world_def solar_doc_def solar_record_def
        note_call_def default_expire_def)
  have ne: "[solar_record] \<noteq> []" by simp
  have later: "redis_store (first_world\<lparr>clock := 1800\<rparr>) = redis_store first_world"
    "clock (first_world\<lparr>clock := 1800\<rparr>) < clock empty_world + default_expire"
    by (simp_all add: empty_world_def default_expire_def)
  from write_back_then_cache_hit [OF h miss first ne later] first
  show ?thesis by (simp add: empty_world_def default_expire_def)
qed

section \<open>The order of the strategies\<close>

lemma vector_search_pure: "fst (vector_search e q w) = fst (vector_search e q w')"
  by (auto simp: vector_search_def Let_def split: option.splits outcome.splits)

lemma match_documents_pure:
  "fst (match_documents e q w) = fst (match_documents e q w')"
  "fst (snd (match_documents e q w)) = fst (snd (match_documents e q w'))"
  by (auto simp: match_documents_def Let_def split: outcome.splits prod.splits)

lemma rpc_raised_pure: "rpc_raised e q w = rpc_raised e q w'"
  using match_documents_pure(2) [of e q w w'] by (simp add: rpc_raised_def)

lemma direct_query_fallback_pure:
  "fst (direct_query_fallback e q rs w) = fst (direct_query_fallback e q rs w')"
  by (auto simp: direct_query_fallback_def direct_db_query_def Let_def
      split: option.splits outcome.splits prod.splits)

lemma get_from_cache_calls:
  "calls (snd (get_from_cache e key w)) =
     calls w @ (if redis_available e \<and> redis_client e then [Cache_get key] else [])"
  by (auto simp: get_from_cache_def redis_get_def Let_def split: option.splits)

lemma set_in_cache_calls:
  "calls (snd (set_in_cache e key v ex w)) =
     calls w @ (if redis_available e \<and> redis_client e then [Cache_set key] else [])"
  by (auto simp: set_in_cache_def redis_setex_def Let_def)

lemma vector_search_calls:
  "calls (snd (vector_search e q w)) =
     calls w @ (if vector_store e = None then [] else [Vector_search q])"
  by (auto simp: vector_search_def Let_def split: option.splits outcome.splits)

lemma match_documents_calls:
  "calls (snd (snd (match_documents e q w))) = calls w @ rpc_calls e q"
  by (auto simp: match_documents_def rpc_calls_def Let_def split: outcome.splits prod.splits)

lemma direct_query_fallback_calls:
  "calls (snd (direct_query_fallback e q rs w)) = calls w @ direct_calls q"
  by (auto simp: direct_query_fallback_def direct_db_query_def direct_calls_def Let_def
      sql_conditions_def split: option.splits outcome.splits prod.splits)

lemma keyword_fallback_calls:
  "calls (snd (keyword_fallback e q rs w)) = calls w @ keyword_calls q"
  by (auto simp: keyword_fallback_def keyword_calls_def Let_def split: list.splits outcome.splits)

lemma rpc_with_fallbacks_not_raised:
  assumes "\<not> rpc_raised e q w"
  shows "fst (rpc_with_fallbacks e q w) = fst (match_documents e q w)"
    and "calls (snd (rpc_with_fallbacks e q w)) = calls w @ rpc_calls e q"
proof -
  obtain rs raised w1 where m: "match_documents e q w = (rs, raised, w1)"
    by (cases "match_documents e q w") auto
  with assms have r: "raised = None" by (simp add: rpc_raised_def)
  from m match_documents_calls [of e q w] have c: "calls w1 = calls w @ rpc_calls e q" by simp
  show "fst (rpc_with_fallbacks e q w) = fst (match_documents e q w)"
    using m r by (simp add: rpc_with_fallbacks_def)
  show "calls (snd (rpc_with_fallbacks e q w)) = calls w @ rpc_calls e q"
    using m r c by (simp add: rpc_with_fallbacks_def)
qed

lemma rpc_with_fallbacks_raised:
  assumes "rpc_raised e q w"
  shows "calls (snd (rpc_with_fallbacks e q w)) =
           calls w @ rpc_calls e q @ direct_calls q
             @ (if fst (direct_query_fallback e q (fst (match_documents e q w)) w) = []
                then keyword_calls q else [])"
proof -
  obtain rs raised w1 where m: "match_documents e q w = (rs, raised, w1)"
    by (cases "match_documents e q w") auto
  with assms obtain me where r: "raised = Some me" by (auto simp: rpc_raised_def)
  from m match_documents_calls [of e q w] have c1: "calls w1 = calls w @ rpc_calls e q" by simp
  obtain rs2 w2 where d: "direct_query_fallback e q rs w1 = (rs2, w2)"
    by (cases "direct_query_fallback e q rs w1") auto
  with direct_query_fallback_calls [of e q rs w1] have c2: "calls w2 = calls w1 @ direct_calls q"
    by simp
  from d m direct_query_fallback_pure [of e q rs w w1]
  have p: "fst (direct_query_fallback e q (fst (match_documents e q w)) w) = rs2" by simp
  show ?thesis
    using m r d c1 c2 p keyword_fallback_calls [of e q rs2 w2]
    by (cases "rs2 = []") (simp_all add: rpc_with_fallbacks_def)
qed

lemma rpc_with_fallbacks_calls:
  "calls (snd (rpc_with_fallbacks e q w)) = calls w @ fallback_calls e q w"
  using rpc_with_fallbacks_raised [of e q w] rpc_with_fallbacks_not_raised(2) [of e q w]
  by (simp add: fallback_calls_def)

lemma fallback_calls_pure: "fallback_calls e q w = fallback_calls e q w'"
  using rpc_raised_pure [of e q w w'] match_documents_pure(1) [of e q w w']
    direct_query_fallback_pure [of e q "fst (match_documents e q w')" w w']
  by (simp add: fallback_calls_def)

lemma search_attempt_calls:
  "\<exists>c s. calls (snd (search_attempt e q w)) =
            calls w @ c
              @ (if cache_hit e q w then []
                 else (if vector_store e = None then [] else [Vector_search q])
                        @ (if fst (vector_search e q w) \<noteq> [] then [] else fallback_calls e q w)
                        @ s)
         \<and> subseq c [Cache_get (cache_key q)]
         \<and> subseq s [Cache_set (cache_key q)]
         \<and> (cache_hit e q w \<longrightarrow> c = [Cache_get (cache_key q)])"
proof -
  define w0 where "w0 = (if redis_available e then snd (get_from_cache e (cache_key q) w) else w)"
  define c where "c = (if redis_available e \<and> redis_client e then [Cache_get (cache_key q)] else [])"
  have c0: "calls w0 = calls w @ c"
    by (simp add: w0_def c_def get_from_cache_calls)
  have csub: "subseq c [Cache_get (cache_key q)]" by (simp add: c_def)
  have chit: "cache_hit e q w \<longrightarrow> c = [Cache_get (cache_key q)]"
    by (auto simp: cache_hit_def c_def get_from_cache_def)
  obtain rs w2 where v: "vector_search e q w0 = (rs, w2)"
    by (cases "vector_search e q w0") auto
  then have c2: "calls w2 = calls w0 @ (if vector_store e = None then [] else [Vector_search q])"
    using vector_search_calls [of e q w0] by simp
  from v vector_search_pure [of e q w w0] have rs: "fst (vector_search e q w) = rs" by simp
  obtain rs3 w3 where f: "rpc_with_fallbacks e q w2 = (rs3, w3)"
    by (cases "rpc_with_fallbacks e q w2") auto
  then have c3: "calls w3 = calls w2 @ fallback_calls e q w"
    using rpc_with_fallbacks_calls [of e q w2] fallback_calls_pure [of e q w2 w] by simp
  show ?thesis
  proof (cases "cache_hit e q w")
    case True
    then have "calls (snd (search_attempt e q w)) = calls w0"
      by (auto simp: search_attempt_def cache_hit_def w0_def split: prod.splits)
    with True c0 csub chit show ?thesis by auto
  next
    case False
    define res where "res = (if rs = [] then rs3 else rs)"
    define wr where "wr = (if rs = [] then w3 else w2)"
    define s where "s = (if redis_available e \<and> res \<noteq> [] \<and> redis_client e
                         then [Cache_set (cache_key q)] else [])"
    have ssub: "subseq s [Cache_set (cache_key q)]" by (simp add: s_def)
    have cr: "calls wr = calls w0 @ (if vector_store e = None then [] else [Vector_search q])
                @ (if rs \<noteq> [] then [] else fallback_calls e q w)"
      using c2 c3 by (simp add: wr_def)
    have "snd (search_attempt e q w) =
            (if redis_available e \<and> res \<noteq> []
             then snd (set_in_cache e (cache_key q) res default_expire wr) else wr)"
      using False v f
      by (cases "redis_available e")
         (auto simp: search_attempt_def cache_hit_def w0_def res_def wr_def split: prod.splits)
    then have "calls (snd (search_attempt e q w)) = calls wr @ s"
      by (simp add: set_in_cache_calls s_def)
    with cr c0 rs False csub ssub show ?thesis by auto
  qed
qed

lemma keyword_fallback_pure:
  "fst (keyword_fallback e q rs w) = fst (keyword_fallback e q rs w')"
  by (auto simp: keyword_fallback_def Let_def split: list.splits outcome.splits)

lemma rpc_with_fallbacks_pure:
  "fst (rpc_with_fallbacks e q w) = fst (rpc_with_fallbacks e q w')"
proof -
  obtain rs raised w1 where m: "match_documents e q w = (rs, raised, w1)"
    by (cases "match_documents e q w") auto
  obtain rs' raised' w1' where m': "match_documents e q w' = (rs', raised', w1')"
    by (cases "match_documents e q w'") auto
  from m m' match_documents_pure [of e q w w'] have eq: "rs' = rs" "raised' = raised" by simp_all
  obtain rs2 w2 where d: "direct_query_fallback e q rs w1 = (rs2, w2)"
    by (cases "direct_query_fallback e q rs w1") auto
  obtain rs2' w2' where d': "direct_query_fallback e q rs w1' = (rs2', w2')"
    by (cases "direct_query_fallback e q rs w1'") auto
  from d d' direct_query_fallback_pure [of e q rs w1 w1'] have eq2: "rs2' = rs2" by simp
  show ?thesis
    using m m' eq d d' eq2 keyword_fallback_pure [of e q rs2 w2 w2']
    by (cases raised; cases "rs2 = []") (simp_all add: rpc_with_fallbacks_def)
qed

lemma search_attempt_result:
  assumes "\<not> cache_hit e q w"
  shows "fst (search_attempt e q w) =
           Returns (if fst (vector_search e q w) \<noteq> [] then fst (vector_search e q w)
                    else fst (rpc_with_fallbacks e q w))"
proof -
  define w0 where "w0 = (if redis_available e then snd (get_from_cache e (cache_key q) w) else w)"
  obtain rs w2 where v: "vector_search e q w0 = (rs, w2)"
    by (cases "vector_search e q w0") auto
  from v vector_search_pure [of e q w w0] have rs: "fst (vector_search e q w) = rs" by simp
  obtain rs3 w3 where f: "rpc_with_fallbacks e q w2 = (rs3, w3)"
    by (cases "rpc_with_fallbacks e q w2") auto
  with rpc_with_fallbacks_pure [of e q w w2] have rs3: "fst (rpc_with_fallbacks e q w) = rs3"
    by simp
  show ?thesis
    using assms v f rs rs3
    by (cases "redis_available e")
       (auto simp: search_attempt_def cache_hit_def w0_def split: prod.splits)
qed

lemma subseq_singleton: "subseq c [x] \<longleftrightarrow> c = [] \<or> c = [x]"
  by (cases c) (auto simp: subseq_Cons2_iff)

lemma fallback_calls_subseq:
  "subseq (fallback_calls e q w)
     ([Embed_query q, Rpc_match_documents,
       Direct_db_query (sql_query (sql_conditions (split (lower q))))] @ keyword_calls q)"
  by (auto simp: fallback_calls_def rpc_calls_def direct_calls_def)

lemma keyword_calls_mem:
  "(\<exists>k. Api_keyword k \<in> set (keyword_calls q)) \<longleftrightarrow> split (lower q) \<noteq> []"
  "Embed_query x \<notin> set (keyword_calls q)" "Direct_db_query y \<notin> set (keyword_calls q)"
  "Vector_search z \<notin> set (keyword_calls q)"
  by (cases "split (lower q)"; simp add: keyword_calls_def)+

lemma fallback_calls_mem:
  "Embed_query q \<in> set (fallback_calls e q w)"
  "Vector_search z \<notin> set (fallback_calls e q w)"
  "(\<exists>s. Direct_db_query s \<in> set (fallback_calls e q w)) \<longleftrightarrow>
     rpc_raised e q w \<and> sql_conditions (split (lower q)) \<noteq> []"
  "(\<exists>k. Api_keyword k \<in> set (fallback_calls e q w)) \<longleftrightarrow>
     rpc_raised e q w \<and> fst (direct_query_fallback e q (fst (match_documents e q w)) w) = []
     \<and> split (lower q) \<noteq> []"
  by (auto simp: fallback_calls_def rpc_calls_def direct_calls_def keyword_calls_mem)

text \<open>
  C2, as the claim states it, fails where the source nests the two keyword fallbacks in
  the handler of the \<^verbatim>\<open>match_documents\<close> exception (lines 372-432): when the
  vector store and the RPC both answer with no row and neither raises, the lookup returns
  the empty list after these two strategies, and neither the database nor the table API is
  queried, although each would have produced a record.
\<close>

theorem cascade_counterexample:
  "search_knowledge_base env_rpc_empty ''wind jobs'' empty_world =
     (Returns [],
      empty_world\<lparr>calls := [Vector_search ''wind jobs'', Embed_query ''wind jobs'',
                              Rpc_match_documents]\<rparr>)
   \<and> fst (vector_search env_rpc_empty ''wind jobs'' empty_world) = []
   \<and> fst (match_documents env_rpc_empty ''wind jobs'' empty_world) = []
   \<and> fst (direct_query_fallback env_rpc_empty ''wind jobs'' [] empty_world) =
       [item_record direct_similarity wind_item]
   \<and> fst (keyword_fallback env_rpc_empty ''wind jobs'' [] empty_world) =
       [item_record keyword_similarity wind_item]"
  by (simp add: search_knowledge_base_def search_attempt_def vector_search_def
      rpc_with_fallbacks_def match_documents_def direct_query_fallback_def direct_db_query_def
      get_db_connection_def keyword_fallback_def sql_conditions_def split_def lower_def
      lower_char_def is_space_def env_rpc_empty_def empty_world_def note_call_def)

text \<open>
  C2, amended. With the knowledge base available, the service calls of a lookup follow the
  fixed order cache read, vector search, embedding and RPC, database query, table query,
  cache write. A cache hit makes the cache read the only call. The vector store is
  searched exactly when the cache missed and a vector store exists; the RPC strategy runs
  exactly when the cache missed and the vector search left no record, whether it raised or
  returned none. The database is queried exactly when, in addition, the RPC strategy raised
  and a condition could be built from the query; the table API is queried exactly when the
  RPC strategy raised, the results are still empty after the database step and the query
  has a keyword. A non-empty vector result is returned as it is; when the RPC strategy
  does not raise, its rows are the result, also when there are none.
\<close>

theorem cascade_order_and_gating:
  assumes "kb_available e"
  shows "\<exists>trace.
      calls (snd (search_knowledge_base e query w)) = calls w @ trace
    \<and> subseq trace (full_cascade query)
    \<and> (cache_hit e query w \<longrightarrow> trace = [Cache_get (cache_key query)])
    \<and> (Vector_search query \<in> set trace \<longleftrightarrow> \<not> cache_hit e query w \<and> vector_store e \<noteq> None)
    \<and> (Embed_query query \<in> set trace \<longleftrightarrow>
          \<not> cache_hit e query w \<and> fst (vector_search e query w) = [])
    \<and> ((\<exists>s. Direct_db_query s \<in> set trace) \<longleftrightarrow>
          \<not> cache_hit e query w \<and> fst (vector_search e query w) = [] \<and> rpc_raised e query w
          \<and> sql_conditions (split (lower query)) \<noteq> [])
    \<and> ((\<exists>k. Api_keyword k \<in> set trace) \<longleftrightarrow>
          \<not> cache_hit e query w \<and> fst (vector_search e query w) = [] \<and> rpc_raised e query w
          \<and> fst (direct_query_fallback e query (fst (match_documents e query w)) w) = []
          \<and> split (lower query) \<noteq> [])
    \<and> (\<not> cache_hit e query w \<and> fst (vector_search e query w) \<noteq> [] \<longrightarrow>
          fst (search_knowledge_base e query w) = Returns (fst (vector_search e query w)))
    \<and> (\<not> cache_hit e query w \<and> fst (vector_search e query w) = [] \<and> \<not> rpc_raised e query w \<longrightarrow>
          fst (search_knowledge_base e query w) = Returns (fst (match_documents e query w)))"
proof -
  from assms search_attempt_returns [of e query w]
  have skb: "search_knowledge_base e query w = search_attempt e query w"
    by (auto simp: search_knowledge_base_def kb_available_def)
  obtain c s where tr: "calls (snd (search_attempt e query w)) =
            calls w @ c
              @ (if cache_hit e query w then []
                 else (if vector_store e = None then [] else [Vector_search query])
                        @ (if fst (vector_search e query w) \<noteq> [] then []
                           else fallback_calls e query w)
                        @ s)"
    and c: "subseq c [Cache_get (cache_key query)]"
    and s: "subseq s [Cache_set (cache_key query)]"
    and hit: "cache_hit e query w \<longrightarrow> c = [Cache_get (cache_key query)]"
    using search_attempt_calls [of e query w] by blast
  define trace where "trace = c
              @ (if cache_hit e query w then []
                 else (if vector_store e = None then [] else [Vector_search query])
                        @ (if fst (vector_search e query w) \<noteq> [] then []
                           else fallback_calls e query w)
                        @ s)"
  have c': "c = [] \<or> c = [Cache_get (cache_key query)]"
    and s': "s = [] \<or> s = [Cache_set (cache_key query)]"
    using c s by (simp_all add: subseq_singleton)
  have vnone: "vector_store e = None \<Longrightarrow> fst (vector_search e query w) = []"
    by (simp add: vector_search_def)
  have 1: "calls (snd (search_knowledge_base e query w)) = calls w @ trace"
    using tr skb by (simp add: trace_def)
  have mid: "subseq ((if vector_store e = None then [] else [Vector_search query])
                        @ (if fst (vector_search e query w) \<noteq> [] then []
                           else fallback_calls e query w))
               ([Vector_search query] @ ([Embed_query query, Rpc_match_documents,
       Direct_db_query (sql_query (sql_conditions (split (lower query))))] @ keyword_calls query))"
    by (rule list_emb_append_mono) (use fallback_calls_subseq [of e query w] in auto)
  have 2: "subseq trace (full_cascade query)"
  proof -
    have "subseq (c @ (((if vector_store e = None then [] else [Vector_search query])
                        @ (if fst (vector_search e query w) \<noteq> [] then []
                           else fallback_calls e query w)) @ s))
       ([Cache_get (cache_key query)] @ (([Vector_search query] @ ([Embed_query query, Rpc_match_documents,
       Direct_db_query (sql_query (sql_conditions (split (lower query))))] @ keyword_calls query))
         @ [Cache_set (cache_key query)]))"
      by (intro list_emb_append_mono c s mid)
    moreover have "subseq c ([Cache_get (cache_key query)] @ (([Vector_search query] @ ([Embed_query query, Rpc_match_documents,
       Direct_db_query (sql_query (sql_conditions (split (lower query))))] @ keyword_calls query))
         @ [Cache_set (cache_key query)]))"
      using c' by auto
    ultimately show ?thesis
      by (auto simp: trace_def full_cascade_def keyword_calls_def)
  qed
  have 3: "cache_hit e query w \<longrightarrow> trace = [Cache_get (cache_key query)]"
    using hit by (simp add: trace_def)
  have 4: "Vector_search query \<in> set trace \<longleftrightarrow> \<not> cache_hit e query w \<and> vector_store e \<noteq> None"
    using c' s' fallback_calls_mem(2) [of query e query w] by (auto simp: trace_def)
  have 5: "Embed_query query \<in> set trace \<longleftrightarrow>
          \<not> cache_hit e query w \<and> fst (vector_search e query w) = []"
    using c' s' fallback_calls_mem(1) [of query e w] by (auto simp: trace_def)
  have 6: "(\<exists>s. Direct_db_query s \<in> set trace) \<longleftrightarrow>
          \<not> cache_hit e query w \<and> fst (vector_search e query w) = [] \<and> rpc_raised e query w
          \<and> sql_conditions (split (lower query)) \<noteq> []"
    using c' s' fallback_calls_mem(3) [of e query w] by (auto simp: trace_def)
  have 7: "(\<exists>k. Api_keyword k \<in> set trace) \<longleftrightarrow>
          \<not> cache_hit e query w \<and> fst (vector_search e query w) = [] \<and> rpc_raised e query w
          \<and> fst (direct_query_fallback e query (fst (match_documents e query w)) w) = []
          \<and> split (lower query) \<noteq> []"
    using c' s' fallback_calls_mem(4) [of e query w] by (auto simp: trace_def)
  have 8: "\<not> cache_hit e query w \<and> fst (vector_search e query w) \<noteq> [] \<longrightarrow>
          fst (search_knowledge_base e query w) = Returns (fst (vector_search e query w))"
    using search_attempt_result [of e query w] skb by simp
  have 9: "\<not> cache_hit e query w \<and> fst (vector_search e query w) = [] \<and> \<not> rpc_raised e query w \<longrightarrow>
          fst (search_knowledge_base e query w) = Returns (fst (match_documents e query w))"
    using search_attempt_result [of e query w] skb rpc_with_fallbacks_not_raised(1) [of e query w]
    by simp
  from 1 2 3 4 5 6 7 8 9 show ?thesis by blast
qed

theorem cascade_order_and_gating_witness:
  "calls (snd (search_knowledge_base env_rpc_raises ''wind jobs'' empty_world)) =
     [Vector_search ''wind jobs'', Embed_query ''wind jobs'', Rpc_match_documents,
      Direct_db_query (sql_query (sql_conditions (split (lower ''wind jobs''))))]
   \<and> subseq [Vector_search ''wind jobs'', Embed_query ''wind jobs'', Rpc_match_documents,
              Direct_db_query (sql_query (sql_conditions (split (lower ''wind jobs''))))]
        (full_cascade ''wind jobs'')
   \<and> rpc_raised env_rpc_raises ''wind jobs'' empty_world
   \<and> \<not> cache_hit env_rpc_raises ''wind jobs'' empty_world"
proof -
  have kb: "kb_available env_rpc_raises"
    by (simp add: kb_available_def env_rpc_raises_def env_rpc_empty_def)
  have cs: "calls (snd (search_knowledge_base env_rpc_raises ''wind jobs'' empty_world)) =
     [Vector_search ''wind jobs'', Embed_query ''wind jobs'', Rpc_match_documents,
      Direct_db_query (sql_query (sql_conditions (split (lower ''wind jobs''))))]"
    by (simp add: search_knowledge_base_def search_attempt_def vector_search_def
        rpc_with_fallbacks_def match_documents_def direct_query_fallback_def direct_db_query_def
        get_db_connection_def sql_conditions_def split_def lower_def
        lower_char_def is_space_def env_rpc_raises_def env_rpc_empty_def empty_world_def
        note_call_def)
  from cascade_order_and_gating [OF kb, of "''wind jobs''" empty_world]
  obtain trace where
    t: "calls (snd (search_knowledge_base env_rpc_raises ''wind jobs'' empty_world)) =
          calls empty_world @ trace"
    and sub: "subseq trace (full_cascade ''wind jobs'')"
    and d: "(\<exists>s. Direct_db_query s \<in> set trace) \<longleftrightarrow>
          \<not> cache_hit env_rpc_raises ''wind jobs'' empty_world
          \<and> fst (vector_search env_rpc_raises ''wind jobs'' empty_world) = []
          \<and> rpc_raised env_rpc_raises ''wind jobs'' empty_world
          \<and> sql_conditions (split (lower ''wind jobs'')) \<noteq> []"
    by blast
  from t cs have tr: "trace = [Vector_search ''wind jobs'', Embed_query ''wind jobs'',
      Rpc_match_documents,
      Direct_db_query (sql_query (sql_conditions (split (lower ''wind jobs''))))]"
    by (simp add: empty_world_def)
  then have "\<exists>s. Direct_db_query s \<in> set trace" by simp
  with d have "rpc_raised env_rpc_raises ''wind jobs'' empty_world"
    and "\<not> cache_hit env_rpc_raises ''wind jobs'' empty_world" by blast+
  with cs sub tr show ?thesis by simp
qed

section \<open>The supervisor on a message, and the specialist round\<close>

lemma grounding_returns:
  "\<exists>kb ctx w2. grounding e msg w = Returns (kb, ctx, w2)"
  using search_knowledge_base_returns [of e msg w]
  by (auto simp: grounding_def split: prod.splits)



section \<open>Routing\<close>






end
